theory Spec2Isabelle
  imports Main
begin

section \<open>Account names of the ledger: \<^verbatim>\<open>beancount/core/account.py\<close>\<close>

text \<open>
  Python strings are modelled as \<^typ>\<open>string\<close>. Every character class of the module
  is an explicit ASCII range, so a character outside ASCII behaves like any other
  character that no class accepts.
\<close>

subsection \<open>The string methods the module calls\<close>

text \<open>
  \<^verbatim>\<open>s.split(sep)\<close> with a one-character separator: the pieces between the occurrences
  of the separator, so the result is never empty and \<^verbatim>\<open>''.split(':') == ['']\<close>.
\<close>

fun str_split :: "char \<Rightarrow> string \<Rightarrow> string list" where
  "str_split sep [] = [[]]"
| "str_split sep (c # cs) =
     (if c = sep then [] # str_split sep cs
      else (c # hd (str_split sep cs)) # tl (str_split sep cs))"

text \<open>\<^verbatim>\<open>sep.join(parts)\<close>.\<close>

fun str_join :: "char \<Rightarrow> string list \<Rightarrow> string" where
  "str_join sep [] = []"
| "str_join sep [p] = p"
| "str_join sep (p # q # ps) = p @ sep # str_join sep (q # ps)"

text \<open>
  \<^verbatim>\<open>xs[0]\<close> and \<^verbatim>\<open>xs[-1]\<close> raise \<^verbatim>\<open>IndexError\<close> on an empty list, and so does
  \<^verbatim>\<open>xs.pop(-1)\<close>.
\<close>

datatype error = AssertionError | NameError | KeyError | IndexError

definition first_item :: "'a list \<Rightarrow> error + 'a" where
  "first_item xs = (case xs of [] \<Rightarrow> Inl IndexError | x # _ \<Rightarrow> Inr x)"

definition last_item :: "'a list \<Rightarrow> error + 'a" where
  "last_item xs = (if xs = [] then Inl IndexError else Inr (last xs))"

definition pop_last :: "'a list \<Rightarrow> error + 'a list" where
  "pop_last xs = (if xs = [] then Inl IndexError else Inr (butlast xs))"

subsection \<open>The account type and the taxonomy\<close>

text \<open>\<^verbatim>\<open>Account = namedtuple('Account', 'name type')\<close>\<close>

record Account =
  name :: string
  type :: string

text \<open>
  The module \<^verbatim>\<open>account_types\<close> is imported, not defined here: its two tables
  \<^verbatim>\<open>ACCOUNT_TYPES\<close> (the registered root types) and \<^verbatim>\<open>TYPES_ORDER\<close> (a dictionary
  from a root type to its rank) are parameters of every function that reads them.
\<close>

record account_types =
  ACCOUNT_TYPES :: "string list"
  TYPES_ORDER :: "string \<rightharpoonup> nat"

text \<open>
  Modelled from the spec: the conventional contents of the two tables of
  \<^verbatim>\<open>account_types\<close>, which is not part of the sources: the root types Assets,
  Liabilities, Equity, Income and Expenses, ranked in this order.
\<close>

definition default_types :: account_types where
  "default_types =
     \<lparr> ACCOUNT_TYPES = [''Assets'', ''Liabilities'', ''Equity'', ''Income'', ''Expenses''],
       TYPES_ORDER = [''Assets'' \<mapsto> 0, ''Liabilities'' \<mapsto> 1, ''Equity'' \<mapsto> 2,
                      ''Income'' \<mapsto> 3, ''Expenses'' \<mapsto> 4] \<rparr>"

subsection \<open>Typing and construction\<close>

text \<open>
  The parameter has type \<^typ>\<open>string\<close>, so \<^verbatim>\<open>assert isinstance(account_name, str)\<close>
  always passes. The second assertion raises \<^verbatim>\<open>AssertionError\<close>.
\<close>

definition account_name_type :: "account_types \<Rightarrow> string \<Rightarrow> error + string" where
  "account_name_type T account_name =
     (case first_item (str_split CHR '':'' account_name) of
        Inl e \<Rightarrow> Inl e
      | Inr atype \<Rightarrow>
          if atype \<in> set (ACCOUNT_TYPES T) then Inr atype else Inl AssertionError)"

definition account_from_name :: "account_types \<Rightarrow> string \<Rightarrow> error + Account" where
  "account_from_name T account_name =
     (case account_name_type T account_name of
        Inl e \<Rightarrow> Inl e
      | Inr atype \<Rightarrow>
          if atype \<in> set (ACCOUNT_TYPES T)
          then Inr \<lparr> name = account_name, type = atype \<rparr>
          else Inl AssertionError)"

subsection \<open>Name decomposition\<close>

text \<open>
  \<^verbatim>\<open>account_name_parent\<close> returns \<^verbatim>\<open>None\<close> (here \<^term>\<open>None\<close>) for the empty
  name, a string otherwise.
\<close>

definition account_name_parent :: "string \<Rightarrow> error + string option" where
  "account_name_parent account_name =
     (if account_name = [] then Inr None
      else case pop_last (str_split CHR '':'' account_name) of
             Inl e \<Rightarrow> Inl e
           | Inr components \<Rightarrow> Inr (Some (str_join CHR '':'' components)))"

text \<open>
  Values of any Python type, as far as the module tells them apart: \<^verbatim>\<open>None\<close>,
  strings, integers, accounts, and every other object (functions, modules, classes,
  identified by a label).
\<close>

datatype pyval = NoneVal | Str string | IntVal int | AccountVal Account | Opaque string

text \<open>The truth value that \<^verbatim>\<open>if\<close> and \<^verbatim>\<open>not\<close> give a value.\<close>

fun truthy :: "pyval \<Rightarrow> bool" where
  "truthy NoneVal = False"
| "truthy (Str s) = (s \<noteq> [])"
| "truthy (IntVal i) = (i \<noteq> 0)"
| "truthy (AccountVal a) = True"
| "truthy (Opaque l) = True"

text \<open>
  The body of \<^verbatim>\<open>account_name_leaf\<close> is
  \<^verbatim>\<open>account_name.split(':')[-1] if name else None\<close>: the condition reads the variable
  \<^verbatim>\<open>name\<close>, which is not the parameter and not a local, so Python looks it up in the
  global namespace of the module (then the builtins) each time the function runs, and
  raises \<^verbatim>\<open>NameError\<close> when it is not bound. The condition is evaluated first. The
  namespace is the first parameter of the model.
\<close>

definition account_name_leaf :: "(string \<rightharpoonup> pyval) \<Rightarrow> string \<Rightarrow> error + string option" where
  "account_name_leaf globals account_name =
     (case globals ''name'' of
        None \<Rightarrow> Inl NameError
      | Some v \<Rightarrow>
          if truthy v
          then (case last_item (str_split CHR '':'' account_name) of
                  Inl e \<Rightarrow> Inl e
                | Inr leaf \<Rightarrow> Inr (Some leaf))
          else Inr None)"

text \<open>
  The names the module binds at its top level, in the order of the file: the three
  imports, the named tuple and the eleven functions. None of them is \<^verbatim>\<open>name\<close>, and
  \<^verbatim>\<open>name\<close> is not a builtin.
\<close>

definition module_names :: "string list" where
  "module_names =
     [''re'', ''namedtuple'', ''account_types'', ''Account'',
      ''account_from_name'', ''account_name_parent'', ''account_name_leaf'',
      ''account_sortkey'', ''account_name_sortkey'', ''account_name_type'',
      ''is_account_name'', ''is_account_name_root'', ''is_balance_sheet_account'',
      ''is_income_statement_account'', ''accountify_dict'']"

definition module_globals :: "string \<rightharpoonup> pyval" where
  "module_globals = map_of (map (\<lambda>n. (n, Opaque n)) module_names)"

subsection \<open>Sort keys\<close>

text \<open>\<^verbatim>\<open>d[k]\<close> raises \<^verbatim>\<open>KeyError\<close> when the key is missing.\<close>

definition getitem :: "('k \<rightharpoonup> 'v) \<Rightarrow> 'k \<Rightarrow> error + 'v" where
  "getitem d k = (case d k of None \<Rightarrow> Inl KeyError | Some v \<Rightarrow> Inr v)"

definition account_sortkey :: "account_types \<Rightarrow> Account \<Rightarrow> error + (nat \<times> string)" where
  "account_sortkey T account =
     (case getitem (TYPES_ORDER T) (type account) of
        Inl e \<Rightarrow> Inl e
      | Inr rank \<Rightarrow> Inr (rank, name account))"

definition account_name_sortkey :: "account_types \<Rightarrow> string \<Rightarrow> error + (nat \<times> string)" where
  "account_name_sortkey T account_name =
     (case account_name_type T account_name of
        Inl e \<Rightarrow> Inl e
      | Inr type_ \<Rightarrow>
          (case getitem (TYPES_ORDER T) type_ of
             Inl e \<Rightarrow> Inl e
           | Inr rank \<Rightarrow> Inr (rank, account_name)))"

text \<open>
  Python compares strings character by character by code point, a proper prefix
  coming first, and tuples by their first differing component.
\<close>

fun str_less :: "string \<Rightarrow> string \<Rightarrow> bool" where
  "str_less [] [] = False"
| "str_less [] (y # ys) = True"
| "str_less (x # xs) [] = False"
| "str_less (x # xs) (y # ys) =
     (if x = y then str_less xs ys else (of_char x :: nat) < of_char y)"

fun sortkey_less :: "nat \<times> string \<Rightarrow> nat \<times> string \<Rightarrow> bool" where
  "sortkey_less (r1, n1) (r2, n2) = (if r1 \<noteq> r2 then r1 < r2 else str_less n1 n2)"

subsection \<open>The grammar of account names\<close>

text \<open>
  The fragment of Python's regular expressions that the module uses: a character
  class given by its inclusive ranges, a literal character, concatenation, the
  greedy \<^verbatim>\<open>+\<close>, and \<^verbatim>\<open>$\<close>. Groups only record positions and are left out.
\<close>

datatype regex =
    Class "(char \<times> char) list"
  | Lit char
  | Seq regex regex
  | Plus regex
  | Dollar

definition in_class :: "(char \<times> char) list \<Rightarrow> char \<Rightarrow> bool" where
  "in_class ranges c =
     list_ex (\<lambda>(lo, hi). (of_char lo :: nat) \<le> of_char c \<and> (of_char c :: nat) \<le> of_char hi) ranges"

definition newline :: char where
  "newline = CHR 0x0A"

text \<open>
  \<open>rmatch r s\<close> lists what is left of \<open>s\<close> after each way of matching \<open>r\<close> at its
  start, in the order in which the backtracking matcher tries them. Without the
  \<^verbatim>\<open>MULTILINE\<close> flag, \<^verbatim>\<open>$\<close> matches at the end of the string and just before a
  newline that is the last character of the string. A repetition only goes on after
  an iteration that consumed something, as Python's does.
\<close>

fun rmatch :: "regex \<Rightarrow> string \<Rightarrow> string list" where
  "rmatch (Class ranges) s =
     (case s of [] \<Rightarrow> [] | c # cs \<Rightarrow> if in_class ranges c then [cs] else [])"
| "rmatch (Lit a) s =
     (case s of [] \<Rightarrow> [] | c # cs \<Rightarrow> if c = a then [cs] else [])"
| "rmatch (Seq r1 r2) s = concat (map (rmatch r2) (rmatch r1 s))"
| "rmatch (Plus r) s =
     concat (map (\<lambda>t. (if length t < length s then rmatch (Plus r) t else []) @ [t])
                 (rmatch r s))"
| "rmatch Dollar s = (if s = [] \<or> s = [newline] then [s] else [])"

text \<open>\<^verbatim>\<open>bool(re.match(pattern, string))\<close>: is there a match at the start of the string?\<close>

definition re_match :: "regex \<Rightarrow> string \<Rightarrow> bool" where
  "re_match r s = (rmatch r s \<noteq> [])"

text \<open>\<^verbatim>\<open>[A-Z][A-Za-z0-9\-]+\<close>\<close>

definition segment_re :: regex where
  "segment_re =
     Seq (Class [(CHR ''A'', CHR ''Z'')])
         (Plus (Class [(CHR ''A'', CHR ''Z''), (CHR ''a'', CHR ''z''),
                       (CHR ''0'', CHR ''9''), (CHR ''-'', CHR ''-'')]))"

text \<open>\<^verbatim>\<open>([A-Z][A-Za-z0-9\-]+)(:[A-Z][A-Za-z0-9\-]+)+$\<close>\<close>

definition account_name_re :: regex where
  "account_name_re =
     Seq segment_re (Seq (Plus (Seq (Lit CHR '':'') segment_re)) Dollar)"

definition is_account_name :: "string \<Rightarrow> bool" where
  "is_account_name string = re_match account_name_re string"

definition is_account_name_root :: "account_types \<Rightarrow> string \<Rightarrow> bool" where
  "is_account_name_root T account_name = (account_name \<in> set (ACCOUNT_TYPES T))"

subsection \<open>Classification under the options of a file\<close>

text \<open>
  \<^verbatim>\<open>x in (options[k] for k in keys)\<close>: the generator is consumed lazily, so the search
  stops at the first equal value, and a missing key raises \<^verbatim>\<open>KeyError\<close> only if the
  search reaches it.
\<close>

fun in_options :: "pyval \<Rightarrow> (string \<rightharpoonup> pyval) \<Rightarrow> string list \<Rightarrow> error + bool" where
  "in_options x options [] = Inr False"
| "in_options x options (k # ks) =
     (case getitem options k of
        Inl e \<Rightarrow> Inl e
      | Inr v \<Rightarrow> if v = x then Inr True else in_options x options ks)"

definition is_balance_sheet_account :: "Account \<Rightarrow> (string \<rightharpoonup> pyval) \<Rightarrow> error + bool" where
  "is_balance_sheet_account account options =
     in_options (Str (type account)) options
       [''name_assets'', ''name_liabilities'', ''name_equity'']"

definition is_income_statement_account :: "Account \<Rightarrow> (string \<rightharpoonup> pyval) \<Rightarrow> error + bool" where
  "is_income_statement_account account options =
     in_options (Str (type account)) options [''name_income'', ''name_expenses'']"

subsection \<open>Converting the strings of a dictionary\<close>

text \<open>
  A dictionary is the list of its items in iteration order (the keys are distinct).
  The comprehension evaluates the value of each item in turn and stops at the first
  one that raises.
\<close>

definition accountify_value :: "account_types \<Rightarrow> pyval \<Rightarrow> error + pyval" where
  "accountify_value T v =
     (case v of
        Str s \<Rightarrow>
          if is_account_name s
          then (case account_from_name T s of Inl e \<Rightarrow> Inl e | Inr a \<Rightarrow> Inr (AccountVal a))
          else Inr v
      | _ \<Rightarrow> Inr v)"

fun accountify_dict :: "account_types \<Rightarrow> ('k \<times> pyval) list \<Rightarrow> error + ('k \<times> pyval) list" where
  "accountify_dict T [] = Inr []"
| "accountify_dict T ((key, v) # items) =
     (case accountify_value T v of
        Inl e \<Rightarrow> Inl e
      | Inr v' \<Rightarrow>
          (case accountify_dict T items of
             Inl e \<Rightarrow> Inl e
           | Inr rest \<Rightarrow> Inr ((key, v') # rest)))"

subsection \<open>Notions of the specification\<close>

text \<open>
  The first colon-segment of a name, said without splitting: what comes before the
  first colon, the whole name if there is none.
\<close>

definition first_segment :: "string \<Rightarrow> string" where
  "first_segment n = takeWhile (\<lambda>c. c \<noteq> CHR '':'') n"

text \<open>An options dictionary that gives the five roles their usual names.\<close>

definition default_options :: "string \<rightharpoonup> pyval" where
  "default_options =
     [''name_assets'' \<mapsto> Str ''Assets'', ''name_liabilities'' \<mapsto> Str ''Liabilities'',
      ''name_equity'' \<mapsto> Str ''Equity'', ''name_income'' \<mapsto> Str ''Income'',
      ''name_expenses'' \<mapsto> Str ''Expenses'']"

text \<open>
  The contract of the taxonomy provider: every registered root type has a rank, and
  different root types have different ranks, so that the ranks order the root types
  totally.
\<close>

definition ranked :: "account_types \<Rightarrow> bool" where
  "ranked T =
     ((\<forall>t \<in> set (ACCOUNT_TYPES T). TYPES_ORDER T t \<noteq> None)
      \<and> inj_on (TYPES_ORDER T) (set (ACCOUNT_TYPES T)))"

text \<open>The order of characters by code point; strings are compared by its \<^const>\<open>lexord\<close>.\<close>

definition codepoint_less :: "(char \<times> char) set" where
  "codepoint_less = {(x, y). (of_char x :: nat) < of_char y}"

text \<open>
  A dictionary value that is a string of the grammar whose first segment is not a
  registered root type.
\<close>

definition unregistered_value :: "account_types \<Rightarrow> pyval \<Rightarrow> bool" where
  "unregistered_value T v =
     (case v of Str s \<Rightarrow> is_account_name s \<and> first_segment s \<notin> set (ACCOUNT_TYPES T)
      | _ \<Rightarrow> False)"

text \<open>
  What the specification asks of the converted value \<open>v'\<close> of a value \<open>v\<close>: the
  constructed account for a string of the grammar, the value itself otherwise.
\<close>

definition coerced :: "account_types \<Rightarrow> pyval \<Rightarrow> pyval \<Rightarrow> bool" where
  "coerced T v v' =
     (case v of
        Str s \<Rightarrow>
          if is_account_name s
          then (\<exists>a. account_from_name T s = Inr a \<and> v' = AccountVal a)
          else v' = v
      | _ \<Rightarrow> v' = v)"

subsection \<open>Splitting and joining\<close>

lemma str_split_nonempty: "str_split sep s \<noteq> []"
  by (induction s) auto

lemma hd_str_split: "hd (str_split sep s) = takeWhile (\<lambda>c. c \<noteq> sep) s"
  by (induction s) auto

lemma first_item_str_split:
  "first_item (str_split sep s) = Inr (takeWhile (\<lambda>c. c \<noteq> sep) s)"
proof (cases "str_split sep s")
  case Nil
  then show ?thesis using str_split_nonempty [of sep s] by simp
next
  case (Cons p ps)
  then have "p = takeWhile (\<lambda>c. c \<noteq> sep) s"
    using hd_str_split [of sep s] by simp
  with Cons show ?thesis by (simp add: first_item_def)
qed

lemma str_split_no_sep: "sep \<notin> set s \<Longrightarrow> str_split sep s = [s]"
  by (induction s) auto

lemma str_split_append_sep:
  "sep \<notin> set leaf \<Longrightarrow> str_split sep (p @ sep # leaf) = str_split sep p @ [leaf]"
proof (induction p)
  case Nil
  then show ?case by (simp add: str_split_no_sep)
next
  case (Cons c p)
  then show ?case using str_split_nonempty [of sep p] by simp
qed

lemma str_join_Cons_char:
  "str_join sep ((c # q) # qs) = c # str_join sep (q # qs)"
  by (cases qs) simp_all

lemma str_join_split: "str_join sep (str_split sep s) = s"
proof (induction s)
  case Nil
  show ?case by simp
next
  case (Cons c s)
  obtain q qs where ss: "str_split sep s = q # qs"
    using str_split_nonempty [of sep s] by (cases "str_split sep s") auto
  show ?case
  proof (cases "c = sep")
    case True
    with ss Cons show ?thesis by simp
  next
    case False
    with ss Cons show ?thesis by (simp add: str_join_Cons_char)
  qed
qed


subsection \<open>Typing, construction and sort keys\<close>

lemma account_name_type_eq:
  "account_name_type T n =
     (if first_segment n \<in> set (ACCOUNT_TYPES T) then Inr (first_segment n) else Inl AssertionError)"
  by (simp add: account_name_type_def first_item_str_split first_segment_def)

lemma account_from_name_eq:
  "account_from_name T n =
     (if first_segment n \<in> set (ACCOUNT_TYPES T)
      then Inr \<lparr> name = n, type = first_segment n \<rparr> else Inl AssertionError)"
  by (simp add: account_from_name_def account_name_type_eq)

text \<open>
  Claim C6. For every name, \<open>account_name_type\<close> and \<open>account_from_name\<close> fail with the
  assertion error (the specification's \<^verbatim>\<open>InvalidAccountType\<close>) exactly when the first
  colon-segment of the name is not a registered root type; when it is registered, the
  first returns that segment and the second returns the account; and
  \<^verbatim>\<open>Foo:Bar\<close> fails under the five conventional root types.
\<close>

theorem invalid_type_iff_unregistered:
  "(account_name_type T n = Inl AssertionError \<longleftrightarrow> first_segment n \<notin> set (ACCOUNT_TYPES T))
   \<and> (account_from_name T n = Inl AssertionError \<longleftrightarrow> first_segment n \<notin> set (ACCOUNT_TYPES T))
   \<and> (first_segment n \<in> set (ACCOUNT_TYPES T) \<longrightarrow>
        account_name_type T n = Inr (first_segment n)
        \<and> account_from_name T n = Inr \<lparr> name = n, type = first_segment n \<rparr>)
   \<and> account_from_name default_types ''Foo:Bar'' = Inl AssertionError"
proof -
  have "first_segment ''Foo:Bar'' \<notin> set (ACCOUNT_TYPES default_types)"
    by (simp add: first_segment_def default_types_def)
  then show ?thesis
    by (simp add: account_name_type_eq account_from_name_eq)
qed

theorem invalid_type_iff_unregistered_witness:
  "first_segment ''Assets:US:Checking'' \<in> set (ACCOUNT_TYPES default_types)
   \<and> account_name_type default_types ''Assets:US:Checking'' = Inr ''Assets''
   \<and> account_from_name default_types ''Assets:US:Checking''
       = Inr \<lparr> name = ''Assets:US:Checking'', type = ''Assets'' \<rparr>"
  using invalid_type_iff_unregistered [of default_types "''Assets:US:Checking''"]
  by (simp add: first_segment_def default_types_def)

text \<open>
  Claim C9. For a name whose first colon-segment is a registered root type, the
  account is constructed and \<open>account_name_sortkey\<close> of the name is \<open>account_sortkey\<close>
  of that account: when the type has a rank in \<^verbatim>\<open>TYPES_ORDER\<close>, both return the key
  made of this rank and the name; when it has none, both raise \<^verbatim>\<open>KeyError\<close>.
\<close>

theorem name_sortkey_agrees:
  "first_segment n \<in> set (ACCOUNT_TYPES T) \<Longrightarrow>
     \<exists>a. account_from_name T n = Inr a
        \<and> account_name_sortkey T n = account_sortkey T a
        \<and> (\<forall>r. TYPES_ORDER T (first_segment n) = Some r \<longrightarrow>
              account_name_sortkey T n = Inr (r, n) \<and> account_sortkey T a = Inr (r, n))
        \<and> (TYPES_ORDER T (first_segment n) = None \<longrightarrow>
              account_name_sortkey T n = Inl KeyError \<and> account_sortkey T a = Inl KeyError)"
proof -
  assume reg: "first_segment n \<in> set (ACCOUNT_TYPES T)"
  let ?a = "\<lparr> name = n, type = first_segment n \<rparr>"
  have c: "account_from_name T n = Inr ?a"
    using reg by (simp add: account_from_name_eq)
  have t: "account_name_type T n = Inr (first_segment n)"
    using reg by (simp add: account_name_type_eq)
  have some: "account_name_sortkey T n = Inr (r, n) \<and> account_sortkey T ?a = Inr (r, n)"
    if "TYPES_ORDER T (first_segment n) = Some r" for r
    using that by (simp add: account_name_sortkey_def account_sortkey_def getitem_def t)
  have none: "account_name_sortkey T n = Inl KeyError \<and> account_sortkey T ?a = Inl KeyError"
    if "TYPES_ORDER T (first_segment n) = None"
    using that by (simp add: account_name_sortkey_def account_sortkey_def getitem_def t)
  have eq: "account_name_sortkey T n = account_sortkey T ?a"
    using some none by (cases "TYPES_ORDER T (first_segment n)") simp_all
  have "account_from_name T n = Inr ?a
        \<and> account_name_sortkey T n = account_sortkey T ?a
        \<and> (\<forall>r. TYPES_ORDER T (first_segment n) = Some r \<longrightarrow>
              account_name_sortkey T n = Inr (r, n) \<and> account_sortkey T ?a = Inr (r, n))
        \<and> (TYPES_ORDER T (first_segment n) = None \<longrightarrow>
              account_name_sortkey T n = Inl KeyError \<and> account_sortkey T ?a = Inl KeyError)"
    using c eq some none by simp
  then show ?thesis by (rule exI)
qed

theorem name_sortkey_agrees_witness:
  "first_segment ''Income:Salary'' \<in> set (ACCOUNT_TYPES default_types)
   \<and> TYPES_ORDER default_types (first_segment ''Income:Salary'') = Some 3
   \<and> account_name_sortkey default_types ''Income:Salary'' = Inr (3, ''Income:Salary'')
   \<and> (\<exists>a. account_from_name default_types ''Income:Salary'' = Inr a
        \<and> account_sortkey default_types a = Inr (3, ''Income:Salary''))
   \<and> first_segment ''Assets:Cash''
        \<in> set (ACCOUNT_TYPES \<lparr> ACCOUNT_TYPES = [''Assets''], TYPES_ORDER = Map.empty \<rparr>)
   \<and> TYPES_ORDER \<lparr> ACCOUNT_TYPES = [''Assets''], TYPES_ORDER = Map.empty \<rparr>
        (first_segment ''Assets:Cash'') = None
   \<and> account_name_sortkey \<lparr> ACCOUNT_TYPES = [''Assets''], TYPES_ORDER = Map.empty \<rparr>
        ''Assets:Cash'' = Inl KeyError"
proof -
  let ?U = "\<lparr> ACCOUNT_TYPES = [''Assets''], TYPES_ORDER = Map.empty \<rparr>"
  have h: "first_segment ''Income:Salary'' \<in> set (ACCOUNT_TYPES default_types)"
    by (simp add: first_segment_def default_types_def)
  have o: "TYPES_ORDER default_types (first_segment ''Income:Salary'') = Some 3"
    by (simp add: first_segment_def default_types_def)
  have hu: "first_segment ''Assets:Cash'' \<in> set (ACCOUNT_TYPES ?U)"
    by (simp add: first_segment_def)
  have ou: "TYPES_ORDER ?U (first_segment ''Assets:Cash'') = None"
    by simp
  have "account_name_sortkey default_types ''Income:Salary'' = Inr (3, ''Income:Salary'')
        \<and> (\<exists>a. account_from_name default_types ''Income:Salary'' = Inr a
             \<and> account_sortkey default_types a = Inr (3, ''Income:Salary''))"
    using o name_sortkey_agrees [OF h] by blast
  moreover have "account_name_sortkey ?U ''Assets:Cash'' = Inl KeyError"
    using ou name_sortkey_agrees [OF hu] by blast
  ultimately show ?thesis using h o hu ou by blast
qed

text \<open>
  Claim C3 says that the leaf of a name is its last colon-segment and that no string
  raises. In the module's namespace the variable \<^verbatim>\<open>name\<close> is unbound, so the call
  on \<^verbatim>\<open>Assets:US:Checking\<close> raises \<^verbatim>\<open>NameError\<close> instead of returning
  \<^verbatim>\<open>Checking\<close>.
\<close>

theorem account_name_leaf_raises:
  "account_name_leaf module_globals ''Assets:US:Checking'' = Inl NameError"
  by (simp add: account_name_leaf_def module_globals_def module_names_def)

lemma in_options_three:
  assumes "options k1 = Some v1" "options k2 = Some v2" "options k3 = Some v3"
  shows "in_options x options [k1, k2, k3] = Inr (x = v1 \<or> x = v2 \<or> x = v3)"
  using assms by (auto simp: getitem_def)

lemma in_options_two:
  assumes "options k1 = Some v1" "options k2 = Some v2"
  shows "in_options x options [k1, k2] = Inr (x = v1 \<or> x = v2)"
  using assms by (auto simp: getitem_def)

text \<open>
  Claim C8. When the options supply the five role keys, \<open>is_balance_sheet_account\<close>
  returns, without raising, whether the type of the account is the value of
  \<^verbatim>\<open>name_assets\<close>, \<^verbatim>\<open>name_liabilities\<close> or \<^verbatim>\<open>name_equity\<close>, and
  \<open>is_income_statement_account\<close> whether it is the value of \<^verbatim>\<open>name_income\<close> or
  \<^verbatim>\<open>name_expenses\<close>.
\<close>

theorem classification_by_type:
  assumes "options ''name_assets'' = Some va"
    and "options ''name_liabilities'' = Some vl"
    and "options ''name_equity'' = Some ve"
    and "options ''name_income'' = Some vi"
    and "options ''name_expenses'' = Some vx"
  shows "is_balance_sheet_account a options
           = Inr (Str (type a) = va \<or> Str (type a) = vl \<or> Str (type a) = ve)
         \<and> is_income_statement_account a options
           = Inr (Str (type a) = vi \<or> Str (type a) = vx)"
proof -
  have "is_balance_sheet_account a options
          = Inr (Str (type a) = va \<or> Str (type a) = vl \<or> Str (type a) = ve)"
    unfolding is_balance_sheet_account_def using assms(1,2,3) by (rule in_options_three)
  moreover have "is_income_statement_account a options
          = Inr (Str (type a) = vi \<or> Str (type a) = vx)"
    unfolding is_income_statement_account_def using assms(4,5) by (rule in_options_two)
  ultimately show ?thesis by simp
qed

theorem classification_by_type_witness:
  "default_options ''name_assets'' = Some (Str ''Assets'')
   \<and> default_options ''name_liabilities'' = Some (Str ''Liabilities'')
   \<and> default_options ''name_equity'' = Some (Str ''Equity'')
   \<and> default_options ''name_income'' = Some (Str ''Income'')
   \<and> default_options ''name_expenses'' = Some (Str ''Expenses'')
   \<and> is_balance_sheet_account \<lparr> name = ''Equity:Opening'', type = ''Equity'' \<rparr> default_options
       = Inr True
   \<and> is_income_statement_account \<lparr> name = ''Equity:Opening'', type = ''Equity'' \<rparr> default_options
       = Inr False"
proof -
  have h: "default_options ''name_assets'' = Some (Str ''Assets'')"
    "default_options ''name_liabilities'' = Some (Str ''Liabilities'')"
    "default_options ''name_equity'' = Some (Str ''Equity'')"
    "default_options ''name_income'' = Some (Str ''Income'')"
    "default_options ''name_expenses'' = Some (Str ''Expenses'')"
    by (simp_all add: default_options_def)
  show ?thesis
    using h classification_by_type [OF h, of "\<lparr> name = ''Equity:Opening'', type = ''Equity'' \<rparr>"]
    by simp
qed

text \<open>
  Claim C10. When the options give the five role keys pairwise distinct strings, no
  account is both a balance sheet account and an income statement account.
\<close>

theorem classification_exclusive:
  assumes "options ''name_assets'' = Some (Str sa)"
    and "options ''name_liabilities'' = Some (Str sl)"
    and "options ''name_equity'' = Some (Str se)"
    and "options ''name_income'' = Some (Str si)"
    and "options ''name_expenses'' = Some (Str sx)"
    and "distinct [sa, sl, se, si, sx]"
  shows "\<not> (is_balance_sheet_account a options = Inr True
            \<and> is_income_statement_account a options = Inr True)"
proof -
  have "is_balance_sheet_account a options
          = Inr (Str (type a) = Str sa \<or> Str (type a) = Str sl \<or> Str (type a) = Str se)"
    unfolding is_balance_sheet_account_def using assms(1,2,3) by (rule in_options_three)
  moreover have "is_income_statement_account a options
          = Inr (Str (type a) = Str si \<or> Str (type a) = Str sx)"
    unfolding is_income_statement_account_def using assms(4,5) by (rule in_options_two)
  ultimately show ?thesis using assms(6) by auto
qed

theorem classification_exclusive_witness:
  "default_options ''name_assets'' = Some (Str ''Assets'')
   \<and> default_options ''name_liabilities'' = Some (Str ''Liabilities'')
   \<and> default_options ''name_equity'' = Some (Str ''Equity'')
   \<and> default_options ''name_income'' = Some (Str ''Income'')
   \<and> default_options ''name_expenses'' = Some (Str ''Expenses'')
   \<and> distinct [''Assets'', ''Liabilities'', ''Equity'', ''Income'', ''Expenses'']
   \<and> is_income_statement_account \<lparr> name = ''Income:Salary'', type = ''Income'' \<rparr>
        default_options = Inr True
   \<and> is_balance_sheet_account \<lparr> name = ''Income:Salary'', type = ''Income'' \<rparr>
        default_options \<noteq> Inr True"
proof -
  have h: "default_options ''name_assets'' = Some (Str ''Assets'')"
    "default_options ''name_liabilities'' = Some (Str ''Liabilities'')"
    "default_options ''name_equity'' = Some (Str ''Equity'')"
    "default_options ''name_income'' = Some (Str ''Income'')"
    "default_options ''name_expenses'' = Some (Str ''Expenses'')"
    by (simp_all add: default_options_def)
  have d: "distinct [''Assets'', ''Liabilities'', ''Equity'', ''Income'', ''Expenses'']"
    by simp
  have i: "is_income_statement_account \<lparr> name = ''Income:Salary'', type = ''Income'' \<rparr>
        default_options = Inr True"
    by (simp add: is_income_statement_account_def getitem_def default_options_def)
  show ?thesis
    using h d i
      classification_exclusive [OF h d, of "\<lparr> name = ''Income:Salary'', type = ''Income'' \<rparr>"]
    by blast
qed

subsection \<open>Parent names\<close>

text \<open>
  Claim C2 says that the parent of the empty name is the empty string. The function
  returns \<^verbatim>\<open>None\<close> for it: the guard \<^verbatim>\<open>if not account_name: return None\<close>.
\<close>

theorem parent_name_counterexample:
  "account_name_parent '''' \<noteq> Inr (Some '''')"
  by (simp add: account_name_parent_def)

text \<open>
  Claim C2, amended. The parent of the empty name is \<^verbatim>\<open>None\<close>. The parent of a
  nonempty name is the name with its last colon-segment removed and the others joined
  with colons again: the empty string for a name without a colon, and \<open>p\<close> for the name
  \<open>p:leaf\<close> where \<open>leaf\<close> has no colon.
\<close>

theorem parent_name:
  "account_name_parent [] = Inr None
   \<and> (n \<noteq> [] \<longrightarrow>
        account_name_parent n
          = Inr (Some (str_join CHR '':'' (butlast (str_split CHR '':'' n)))))
   \<and> (n \<noteq> [] \<and> CHR '':'' \<notin> set n \<longrightarrow> account_name_parent n = Inr (Some []))
   \<and> (CHR '':'' \<notin> set leaf \<longrightarrow>
        account_name_parent (p @ CHR '':'' # leaf) = Inr (Some p))"
proof -
  have split: "n \<noteq> [] \<Longrightarrow>
      account_name_parent n = Inr (Some (str_join CHR '':'' (butlast (str_split CHR '':'' n))))"
    for n
    by (simp add: account_name_parent_def pop_last_def str_split_nonempty)
  have root: "account_name_parent n = Inr (Some [])" if "n \<noteq> []" "CHR '':'' \<notin> set n"
    using that by (simp add: split str_split_no_sep)
  have child: "account_name_parent (p @ CHR '':'' # leaf) = Inr (Some p)"
    if "CHR '':'' \<notin> set leaf"
    using that by (simp add: split str_split_append_sep str_join_split)
  have empty: "account_name_parent [] = Inr None"
    by (simp add: account_name_parent_def)
  from empty split root child show ?thesis by blast
qed

theorem parent_name_witness:
  "''Assets:US:Checking'' \<noteq> [] \<and> CHR '':'' \<notin> set ''Checking'' \<and> CHR '':'' \<notin> set ''Assets''
   \<and> account_name_parent ''Assets:US:Checking'' = Inr (Some ''Assets:US'')
   \<and> account_name_parent ''Assets'' = Inr (Some '''')"
proof -
  have a: "''Assets'' \<noteq> [] \<and> CHR '':'' \<notin> set ''Assets''" by simp
  have c: "CHR '':'' \<notin> set ''Checking''" by simp
  have "account_name_parent ''Assets'' = Inr (Some '''')"
    using a parent_name [of "''Assets''" "''Checking''" "''Assets:US''"] by blast
  moreover have "account_name_parent (''Assets:US'' @ CHR '':'' # ''Checking'') = Inr (Some ''Assets:US'')"
    using c parent_name [of "''Assets''" "''Checking''" "''Assets:US''"] by blast
  ultimately show ?thesis by simp
qed

lemma is_account_name_Foo_Bar: "is_account_name ''Foo:Bar''"
  by (simp add: is_account_name_def re_match_def account_name_re_def segment_re_def
      in_class_def newline_def)

lemma is_account_name_Assets_Cash: "is_account_name ''Assets:Cash''"
  by (simp add: is_account_name_def re_match_def account_name_re_def segment_re_def
      in_class_def newline_def)

subsection \<open>Construction of names of the grammar\<close>

text \<open>
  Claim C1 says that every name of the grammar can be constructed. \<^verbatim>\<open>Foo:Bar\<close> is a
  name of the grammar, and its construction fails under the five conventional root
  types: the assertion of \<open>account_name_type\<close>.
\<close>

theorem construct_valid_name_counterexample:
  "is_account_name ''Foo:Bar'' \<and> account_from_name default_types ''Foo:Bar'' = Inl AssertionError"
  by (simp add: is_account_name_Foo_Bar account_from_name_eq first_segment_def default_types_def)

text \<open>
  Claim C1, amended. For every name of the grammar whose first colon-segment is a
  registered root type, the construction succeeds and returns the account with this
  name and with the type that \<open>account_name_type\<close> returns, the first colon-segment.
  For every name of the grammar whose first colon-segment is not a registered root
  type, the construction and \<open>account_name_type\<close> fail with the assertion error (the
  specification's \<^verbatim>\<open>InvalidAccountType\<close>). Every account that the construction
  returns has the name it was given and the first colon-segment of its name as its
  type.
\<close>

theorem construct_valid_registered:
  "(is_account_name n \<and> first_segment n \<in> set (ACCOUNT_TYPES T) \<longrightarrow>
      account_from_name T n = Inr \<lparr> name = n, type = first_segment n \<rparr>
      \<and> account_name_type T n = Inr (first_segment n))
   \<and> (is_account_name n \<and> first_segment n \<notin> set (ACCOUNT_TYPES T) \<longrightarrow>
      account_from_name T n = Inl AssertionError
      \<and> account_name_type T n = Inl AssertionError)
   \<and> (\<forall>a. account_from_name T n = Inr a \<longrightarrow>
         name a = n \<and> type a = first_segment (name a) \<and> account_name_type T n = Inr (type a))"
proof -
  have ok: "account_from_name T n = Inr \<lparr> name = n, type = first_segment n \<rparr>
            \<and> account_name_type T n = Inr (first_segment n)"
    if "first_segment n \<in> set (ACCOUNT_TYPES T)"
    using that by (simp add: account_from_name_eq account_name_type_eq)
  have bad: "account_from_name T n = Inl AssertionError
             \<and> account_name_type T n = Inl AssertionError"
    if "first_segment n \<notin> set (ACCOUNT_TYPES T)"
    using that by (simp add: account_from_name_eq account_name_type_eq)
  have inv: "name a = n \<and> type a = first_segment (name a) \<and> account_name_type T n = Inr (type a)"
    if "account_from_name T n = Inr a" for a
    using that by (auto simp: account_from_name_eq account_name_type_eq split: if_splits)
  from ok bad inv show ?thesis by blast
qed

theorem construct_valid_registered_witness:
  "is_account_name ''Assets:Cash''
   \<and> first_segment ''Assets:Cash'' \<in> set (ACCOUNT_TYPES default_types)
   \<and> account_from_name default_types ''Assets:Cash''
       = Inr \<lparr> name = ''Assets:Cash'', type = ''Assets'' \<rparr>
   \<and> account_name_type default_types ''Assets:Cash'' = Inr ''Assets''
   \<and> is_account_name ''Foo:Bar''
   \<and> first_segment ''Foo:Bar'' \<notin> set (ACCOUNT_TYPES default_types)
   \<and> account_from_name default_types ''Foo:Bar'' = Inl AssertionError
   \<and> account_name_type default_types ''Foo:Bar'' = Inl AssertionError"
proof -
  have v: "is_account_name ''Assets:Cash''" by (rule is_account_name_Assets_Cash)
  have r: "first_segment ''Assets:Cash'' \<in> set (ACCOUNT_TYPES default_types)"
    by (simp add: first_segment_def default_types_def)
  have f: "first_segment ''Assets:Cash'' = ''Assets''" by (simp add: first_segment_def)
  have v': "is_account_name ''Foo:Bar''" by (rule is_account_name_Foo_Bar)
  have u: "first_segment ''Foo:Bar'' \<notin> set (ACCOUNT_TYPES default_types)"
    by (simp add: first_segment_def default_types_def)
  from v r construct_valid_registered [of "''Assets:Cash''" default_types]
  have "account_from_name default_types ''Assets:Cash''
          = Inr \<lparr> name = ''Assets:Cash'', type = first_segment ''Assets:Cash'' \<rparr>
        \<and> account_name_type default_types ''Assets:Cash'' = Inr (first_segment ''Assets:Cash'')"
    by blast
  then have good: "account_from_name default_types ''Assets:Cash''
          = Inr \<lparr> name = ''Assets:Cash'', type = ''Assets'' \<rparr>
        \<and> account_name_type default_types ''Assets:Cash'' = Inr ''Assets''"
    by (simp add: f)
  from v' u construct_valid_registered [of "''Foo:Bar''" default_types]
  have fail: "account_from_name default_types ''Foo:Bar'' = Inl AssertionError
        \<and> account_name_type default_types ''Foo:Bar'' = Inl AssertionError"
    by blast
  from v r good v' u fail show ?thesis by blast
qed

subsection \<open>Conversion of dictionaries\<close>

lemma accountify_value_eq:
  "accountify_value T v =
     (case v of
        Str s \<Rightarrow>
          if is_account_name s
          then (if first_segment s \<in> set (ACCOUNT_TYPES T)
                then Inr (AccountVal \<lparr> name = s, type = first_segment s \<rparr>)
                else Inl AssertionError)
          else Inr v
      | _ \<Rightarrow> Inr v)"
  by (simp add: accountify_value_def account_from_name_eq split: pyval.splits)

lemma accountify_value_cases:
  "(unregistered_value T v \<and> accountify_value T v = Inl AssertionError)
   \<or> (\<not> unregistered_value T v \<and> (\<exists>v'. accountify_value T v = Inr v' \<and> coerced T v v'))"
  by (simp add: accountify_value_eq unregistered_value_def coerced_def account_from_name_eq
      split: pyval.splits)

lemma accountify_dict_fails:
  "\<exists>v \<in> snd ` set d. unregistered_value T v \<Longrightarrow> accountify_dict T d = Inl AssertionError"
proof (induction d)
  case Nil
  then show ?case by simp
next
  case (Cons item d)
  obtain k v where item: "item = (k, v)" by (cases item)
  show ?case
  proof (cases "unregistered_value T v")
    case True
    then show ?thesis using accountify_value_cases [of T v] by (simp add: item)
  next
    case False
    with Cons.prems item have "\<exists>v \<in> snd ` set d. unregistered_value T v" by auto
    then have "accountify_dict T d = Inl AssertionError" by (rule Cons.IH)
    with False show ?thesis using accountify_value_cases [of T v] by (auto simp: item)
  qed
qed

lemma accountify_dict_succeeds:
  "\<forall>v \<in> snd ` set d. \<not> unregistered_value T v \<Longrightarrow>
     \<exists>r. accountify_dict T d = Inr r \<and> map fst r = map fst d
         \<and> list_all2 (coerced T) (map snd d) (map snd r)"
proof (induction d)
  case Nil
  then show ?case by simp
next
  case (Cons item d)
  obtain k v where item: "item = (k, v)" by (cases item)
  from Cons.prems item have "\<not> unregistered_value T v" by simp
  then obtain v' where v': "accountify_value T v = Inr v'" "coerced T v v'"
    using accountify_value_cases [of T v] by blast
  from Cons.prems have "\<forall>v \<in> snd ` set d. \<not> unregistered_value T v" by simp
  then obtain r where r: "accountify_dict T d = Inr r" "map fst r = map fst d"
      "list_all2 (coerced T) (map snd d) (map snd r)"
    using Cons.IH by blast
  have "accountify_dict T (item # d) = Inr ((k, v') # r)"
    by (simp add: item v'(1) r(1))
  moreover have "map fst ((k, v') # r) = map fst (item # d)"
    by (simp add: item r(2))
  moreover have "list_all2 (coerced T) (map snd (item # d)) (map snd ((k, v') # r))"
    by (simp add: item v'(2) r(3))
  ultimately show ?case by blast
qed

text \<open>
  Claim C4 says that no dictionary makes the conversion raise. The dictionary
  \<^verbatim>\<open>{'a': 'Foo:Bar'}\<close> does, under the five conventional root types: the string is of
  the grammar, so it is constructed, and the construction fails.
\<close>

theorem accountify_dict_counterexample:
  "accountify_dict default_types [(''a'', Str ''Foo:Bar'')] = Inl AssertionError"
  by (simp add: accountify_value_eq is_account_name_Foo_Bar first_segment_def default_types_def)

text \<open>
  Claim C4, amended. For a dictionary none of whose values is a string of the grammar
  with an unregistered first segment, the conversion returns a dictionary with the
  same keys in which each string of the grammar is replaced by its constructed account
  and every other value is unchanged. A dictionary with a value that is a string of
  the grammar with an unregistered first segment makes it raise the assertion error.
\<close>

theorem accountify_dict_registered:
  "((\<forall>v \<in> snd ` set d. \<not> unregistered_value T v) \<longrightarrow>
      (\<exists>r. accountify_dict T d = Inr r \<and> map fst r = map fst d
           \<and> list_all2 (coerced T) (map snd d) (map snd r)))
   \<and> ((\<exists>v \<in> snd ` set d. unregistered_value T v) \<longrightarrow>
        accountify_dict T d = Inl AssertionError)"
  using accountify_dict_succeeds [of d T] accountify_dict_fails [of d T] by blast

theorem accountify_dict_registered_witness:
  "(\<exists>r. accountify_dict default_types [(''a'', Str ''Assets:Cash''), (''b'', IntVal 42)] = Inr r
        \<and> map fst r = [''a'', ''b''])
   \<and> accountify_dict default_types [(''a'', Str ''Foo:Bar'')] = Inl AssertionError"
proof -
  have ok: "\<forall>v \<in> snd ` set [(''a'', Str ''Assets:Cash''), (''b'', IntVal 42)].
       \<not> unregistered_value default_types v"
    by (simp add: unregistered_value_def first_segment_def default_types_def)
  have bad: "\<exists>v \<in> snd ` set [(''a'', Str ''Foo:Bar'')]. unregistered_value default_types v"
    by (simp add: unregistered_value_def is_account_name_Foo_Bar first_segment_def
        default_types_def)
  have "\<exists>r. accountify_dict default_types [(''a'', Str ''Assets:Cash''), (''b'', IntVal 42)] = Inr r
         \<and> map fst r = map fst [(''a'', Str ''Assets:Cash''), (''b'', IntVal 42)]"
    using ok accountify_dict_registered
      [of "[(''a'', Str ''Assets:Cash''), (''b'', IntVal 42)]" default_types]
    by blast
  moreover have "accountify_dict default_types [(''a'', Str ''Foo:Bar'')] = Inl AssertionError"
    using bad accountify_dict_registered [of "[(''a'', Str ''Foo:Bar'')]" default_types]
    by blast
  ultimately show ?thesis by simp
qed

lemma str_less_lexord: "str_less a b \<longleftrightarrow> (a, b) \<in> lexord codepoint_less"
  by (induction a b rule: str_less.induct) (auto simp: codepoint_less_def)

lemma ranked_default: "ranked default_types"
  by (simp add: ranked_def default_types_def inj_on_def)

subsection \<open>The order of sort keys\<close>

text \<open>
  Claim C7. Under a taxonomy whose ranks order the root types totally, two accounts
  with registered types have sort keys; if the types differ, the first key is less
  than the second exactly when the rank of the first type is less than the rank of the
  second; if the types are equal, exactly when the first name comes before the second
  in the lexicographic order of code points.
\<close>

theorem sortkey_order:
  assumes "ranked T"
    and "type a \<in> set (ACCOUNT_TYPES T)"
    and "type b \<in> set (ACCOUNT_TYPES T)"
  shows "\<exists>ra rb. TYPES_ORDER T (type a) = Some ra \<and> TYPES_ORDER T (type b) = Some rb
           \<and> account_sortkey T a = Inr (ra, name a)
           \<and> account_sortkey T b = Inr (rb, name b)
           \<and> (type a \<noteq> type b \<longrightarrow>
                (sortkey_less (ra, name a) (rb, name b) \<longleftrightarrow> ra < rb))
           \<and> (type a = type b \<longrightarrow>
                (sortkey_less (ra, name a) (rb, name b)
                   \<longleftrightarrow> (name a, name b) \<in> lexord codepoint_less))"
proof -
  from assms(1,2) obtain ra where ra: "TYPES_ORDER T (type a) = Some ra"
    unfolding ranked_def by blast
  from assms(1,3) obtain rb where rb: "TYPES_ORDER T (type b) = Some rb"
    unfolding ranked_def by blast
  have ka: "account_sortkey T a = Inr (ra, name a)"
    by (simp add: account_sortkey_def getitem_def ra)
  have kb: "account_sortkey T b = Inr (rb, name b)"
    by (simp add: account_sortkey_def getitem_def rb)
  have differ: "ra \<noteq> rb" if "type a \<noteq> type b"
  proof
    assume "ra = rb"
    with ra rb have "TYPES_ORDER T (type a) = TYPES_ORDER T (type b)" by simp
    with assms have "type a = type b" by (auto simp: ranked_def dest: inj_onD)
    with that show False by simp
  qed
  have same: "ra = rb" if "type a = type b"
    using that ra rb by simp
  have d: "type a \<noteq> type b \<longrightarrow> (sortkey_less (ra, name a) (rb, name b) \<longleftrightarrow> ra < rb)"
    using differ by simp
  have s: "type a = type b \<longrightarrow>
      (sortkey_less (ra, name a) (rb, name b) \<longleftrightarrow> (name a, name b) \<in> lexord codepoint_less)"
    using same by (simp add: str_less_lexord)
  from ra rb ka kb d s show ?thesis by blast
qed

theorem sortkey_order_witness:
  "''Assets'' \<in> set (ACCOUNT_TYPES default_types)
   \<and> ''Income'' \<in> set (ACCOUNT_TYPES default_types)
   \<and> (\<exists>ka kb. account_sortkey default_types \<lparr> name = ''Assets:Cash'', type = ''Assets'' \<rparr> = Inr ka
         \<and> account_sortkey default_types \<lparr> name = ''Income:Salary'', type = ''Income'' \<rparr> = Inr kb
         \<and> sortkey_less ka kb)
   \<and> (\<exists>ka kb. account_sortkey default_types \<lparr> name = ''Assets:Cash'', type = ''Assets'' \<rparr> = Inr ka
         \<and> account_sortkey default_types \<lparr> name = ''Assets:US'', type = ''Assets'' \<rparr> = Inr kb
         \<and> sortkey_less ka kb)"
proof -
  have r: "ranked default_types" by (rule ranked_default)
  have ta: "type \<lparr> name = ''Assets:Cash'', type = ''Assets'' \<rparr> \<in> set (ACCOUNT_TYPES default_types)"
    and ti: "type \<lparr> name = ''Income:Salary'', type = ''Income'' \<rparr> \<in> set (ACCOUNT_TYPES default_types)"
    and tu: "type \<lparr> name = ''Assets:US'', type = ''Assets'' \<rparr> \<in> set (ACCOUNT_TYPES default_types)"
    by (simp_all add: default_types_def)
  have o: "TYPES_ORDER default_types ''Assets'' = Some 0"
    "TYPES_ORDER default_types ''Income'' = Some 3"
    by (simp_all add: default_types_def)
  have l: "(''Assets:Cash'', ''Assets:US'') \<in> lexord codepoint_less"
    by (simp add: str_less_lexord [symmetric])
  have "\<exists>ka kb. account_sortkey default_types \<lparr> name = ''Assets:Cash'', type = ''Assets'' \<rparr> = Inr ka
         \<and> account_sortkey default_types \<lparr> name = ''Income:Salary'', type = ''Income'' \<rparr> = Inr kb
         \<and> sortkey_less ka kb"
    using sortkey_order [OF r ta ti] o by auto
  moreover have "\<exists>ka kb. account_sortkey default_types \<lparr> name = ''Assets:Cash'', type = ''Assets'' \<rparr> = Inr ka
         \<and> account_sortkey default_types \<lparr> name = ''Assets:US'', type = ''Assets'' \<rparr> = Inr kb
         \<and> sortkey_less ka kb"
    using sortkey_order [OF r ta tu] l by auto
  ultimately show ?thesis by (simp add: default_types_def)
qed

subsection \<open>The grammar check\<close>

text \<open>
  Claim C5 says that \<open>is_account_name\<close> accepts exactly the strings made of two or more
  segments and nothing after them. It accepts \<^verbatim>\<open>Assets:Cash\<close> followed by a newline:
  \<^verbatim>\<open>$\<close> also matches just before a newline that ends the string.
\<close>

theorem trailing_newline_accepted:
  "is_account_name (''Assets:Cash'' @ [CHR 0x0A])"
  by (simp add: is_account_name_def re_match_def account_name_re_def segment_re_def
      in_class_def newline_def)

end
